theory Spec2Isabelle
  imports Main "HOL-Library.Finite_Map" "HOL-Library.Word"
    "HOL-Library.Char_ord" "HOL-Library.List_Lexorder"
begin

section \<open>Go values used by the verify command\<close>

text \<open>
  A Go \<^verbatim>\<open>error\<close> value is a node of an unwrap chain. Three shapes occur in
  \<^verbatim>\<open>cmd/notation/verify.go\<close>:
  \<^item> a value of the library type \<^verbatim>\<open>notation.ErrorVerificationFailed\<close>; the string is
    the text its \<^verbatim>\<open>Error()\<close> method gives;
  \<^item> any other error without \<^verbatim>\<open>Unwrap\<close> (\<^verbatim>\<open>errors.New\<close>, \<^verbatim>\<open>fmt.Errorf\<close> without
    \<^verbatim>\<open>%w\<close>, a transport error, ...), with its text;
  \<^item> an error that wraps another one (\<^verbatim>\<open>fmt.Errorf\<close> with \<^verbatim>\<open>%w\<close>), with its own text
    and the error \<^verbatim>\<open>Unwrap()\<close> returns.
  The interface value \<^verbatim>\<open>nil\<close> is \<open>None\<close> of \<open>go_error option\<close>.
\<close>

datatype go_error =
    ErrorVerificationFailed string
  | ErrorString string
  | WrapError string go_error

fun error_message :: "go_error \<Rightarrow> string" where
  "error_message (ErrorVerificationFailed msg) = msg"
| "error_message (ErrorString msg) = msg"
| "error_message (WrapError msg _) = msg"

fun Unwrap :: "go_error \<Rightarrow> go_error option" where
  "Unwrap (WrapError _ err) = Some err"
| "Unwrap _ = None"

text \<open>
  \<^verbatim>\<open>errors.As(err, &errorVerificationFailed)\<close> with a target of type
  \<^verbatim>\<open>notation.ErrorVerificationFailed\<close>: it walks the unwrap chain of \<open>err\<close> and reports
  whether some error in the chain has that type.
\<close>

fun errors_As_ErrorVerificationFailed :: "go_error \<Rightarrow> bool" where
  "errors_As_ErrorVerificationFailed (ErrorVerificationFailed _) = True"
| "errors_As_ErrorVerificationFailed (ErrorString _) = False"
| "errors_As_ErrorVerificationFailed (WrapError _ err) = errors_As_ErrorVerificationFailed err"

text \<open>
  \<^verbatim>\<open>fmt.Errorf(prefix + "%w", err)\<close>: the text is the prefix followed by the text of
  \<open>err\<close>, and the result unwraps to \<open>err\<close>.
  \<^verbatim>\<open>fmt.Errorf(prefix + "%s", s)\<close> has no \<^verbatim>\<open>%w\<close> and wraps nothing.
\<close>

definition fmt_Errorf_w :: "string \<Rightarrow> go_error \<Rightarrow> go_error" where
  "fmt_Errorf_w prefix err = WrapError (prefix @ error_message err) err"

definition fmt_Errorf_s :: "string \<Rightarrow> string \<Rightarrow> go_error" where
  "fmt_Errorf_s prefix s = ErrorString (prefix @ s)"

fun strings_Join :: "string list \<Rightarrow> string \<Rightarrow> string" where
  "strings_Join [] sep = []"
| "strings_Join [s] sep = s"
| "strings_Join (s # t # rest) sep = s @ sep @ strings_Join (t # rest) sep"

text \<open>
  Printing is an effect. The model records each print statement the code executes, in
  order: the stream, the format (or the operands of \<^verbatim>\<open>Println\<close>) and the arguments as
  values, before any formatting. \<^verbatim>\<open>ioutil.PrintMetadataMap\<close> belongs to this repository
  but not to the two source files modelled here, so its call is recorded with its argument.
\<close>

datatype stream = Stdout | Stderr

datatype fmt_arg = ArgString string | ArgError go_error

datatype print_call =
    Fprintf stream string "fmt_arg list"
  | Println stream "string list"
  | PrintMetadataMap stream "(string, string) fmap"

fun stream_of :: "print_call \<Rightarrow> stream" where
  "stream_of (Fprintf s _ _) = s"
| "stream_of (Println s _) = s"
| "stream_of (PrintMetadataMap s _) = s"

definition newline :: char where
  "newline = CHR 0x0A"

definition dquote :: char where
  "dquote = CHR 0x22"

text \<open>\<^verbatim>\<open>len(m)\<close> of a Go map: the number of its keys (0 for the nil map).\<close>

definition len_map :: "(string, string) fmap \<Rightarrow> nat" where
  "len_map m = fcard (fmdom m)"

section \<open>internal/experimental/experimental.go\<close>

text \<open>
  What the process sees of its surroundings: the environment variables (a variable that
  is not set is \<open>None\<close>; \<^verbatim>\<open>os.Getenv\<close> then returns the empty string), and the error, if
  any, that writing to standard error returns.
\<close>

record os =
  environ :: "string \<rightharpoonup> string"
  stderr_error :: "go_error option"

definition os_Getenv :: "os \<Rightarrow> string \<Rightarrow> string" where
  "os_Getenv os name = (case environ os name of None \<Rightarrow> [] | Some v \<Rightarrow> v)"

definition envName :: string where
  "envName = ''NOTATION_EXPERIMENTAL''"

definition enabled :: string where
  "enabled = ''1''"

definition IsDisabled :: "os \<Rightarrow> bool" where
  "IsDisabled os = (os_Getenv os envName \<noteq> enabled)"

definition warn :: "os \<Rightarrow> print_call list \<times> go_error option" where
  "warn os =
     ([Fprintf Stderr
         (''Warning: This feature is experimental and may not be fully tested or completed and may be deprecated. Report any issues to ''
            @ [dquote] @ ''https://github/notaryproject/notation'' @ [dquote, newline]) []],
      stderr_error os)"

text \<open>
  \<^verbatim>\<open>
  func CheckAndWarn(doCheck func() (feature string, isExperimental bool)) error {
      feature, isExperimental := doCheck()
      if isExperimental {
          if IsDisabled() {
              return fmt.Errorf("%s is experimental and not enabled by default. To use, please set %s=%s environment variable", feature, envName, enabled)
          }
          return warn()
      }
      return nil
  }
  \<close>
\<close>

definition CheckAndWarn :: "os \<Rightarrow> (unit \<Rightarrow> string \<times> bool) \<Rightarrow> print_call list \<times> go_error option" where
  "CheckAndWarn os doCheck =
     (case doCheck () of (feature, isExperimental) \<Rightarrow>
        if isExperimental then
          (if IsDisabled os then
             ([], Some (ErrorString
                (feature @ '' is experimental and not enabled by default. To use, please set ''
                   @ envName @ ''='' @ enabled @ '' environment variable'')))
           else warn os)
        else ([], None))"

text \<open>
  The parsed command line of \<^verbatim>\<open>notation verify\<close>: the positional arguments and, for each
  flag of the command, what the user gave. A flag that was not given is \<open>None\<close> (for the
  repeatable flags, the empty list); \<^verbatim>\<open>flagSet.Changed(name)\<close> says whether it was given.
\<close>

record cmdline =
  command_path :: string
  args :: "string list"
  plugin_config_flag :: "string list"
  user_metadata_flag :: "string list"
  oci_layout_flag :: "bool option"
  scope_flag :: "string option"

definition Changed :: "cmdline \<Rightarrow> string \<Rightarrow> bool" where
  "Changed cl name =
     (if name = ''oci-layout'' then oci_layout_flag cl \<noteq> None
      else if name = ''scope'' then scope_flag cl \<noteq> None
      else if name = ''plugin-config'' then plugin_config_flag cl \<noteq> []
      else if name = ''user-metadata'' then user_metadata_flag cl \<noteq> []
      else False)"

fun changedFlags :: "cmdline \<Rightarrow> string list \<Rightarrow> string list" where
  "changedFlags cl [] = []"
| "changedFlags cl (flag # rest) =
     (if Changed cl flag then [''--'' @ flag] else []) @ changedFlags cl rest"

text \<open>
  \<^verbatim>\<open>CheckFlagsAndWarn(cmd, flags...)\<close>. The feature text is
  \<^verbatim>\<open>fmt.Sprintf("flag(s) %s in %q", strings.Join(changedFlags, ","), cmd.CommandPath())\<close>;
  \<open>fmt_q\<close> is Go's quoting of a string under the verb \<^verbatim>\<open>%q\<close>, taken as a parameter.
\<close>

definition CheckFlagsAndWarn ::
  "(string \<Rightarrow> string) \<Rightarrow> os \<Rightarrow> cmdline \<Rightarrow> string list \<Rightarrow> print_call list \<times> go_error option" where
  "CheckFlagsAndWarn fmt_q os cl flags =
     CheckAndWarn os (\<lambda>_.
       let changed = changedFlags cl flags in
       if length changed = 0 then ([], False)
       else (''flag(s) '' @ strings_Join changed '','' @ '' in '' @ fmt_q (command_path cl), True))"

section \<open>The verification library's data\<close>

text \<open>
  The types of \<^verbatim>\<open>notation-go\<close> that \<^verbatim>\<open>verify.go\<close> reads. \<^verbatim>\<open>ValidationType\<close> and
  \<^verbatim>\<open>ValidationAction\<close> are string types. A \<^verbatim>\<open>*trustpolicy.VerificationLevel\<close> is a
  value of the type parameter \<open>'l\<close> behind a pointer (\<open>None\<close> is the nil pointer); HOL
  equality on \<open>'l option\<close> stands for \<^verbatim>\<open>reflect.DeepEqual\<close> on two such pointers. The
  method \<^verbatim>\<open>outcome.UserMetadata()\<close> is the field \<open>UserMetadata_returns\<close>: the map and
  the error it returns. The slices hold non-nil pointers.
\<close>

type_synonym ValidationType = string

type_synonym ValidationAction = string

record ValidationResult =
  Type :: ValidationType
  Action :: ValidationAction
  Error :: "go_error option"

record 'l VerificationOutcome =
  VerificationLevel :: "'l option"
  VerificationResults :: "ValidationResult list"
  UserMetadata_returns :: "(string, string) fmap \<times> go_error option"

record VerifyOptions =
  ArtifactReference :: string
  PluginConfig :: "(string, string) fmap"
  MaxSignatureAttempts :: int
  UserMetadata :: "(string, string) fmap"

definition reflect_DeepEqual :: "'l option \<Rightarrow> 'l option \<Rightarrow> bool" where
  "reflect_DeepEqual x y = (x = y)"

section \<open>cmd/notation/verify.go\<close>

datatype inputType = inputTypeRegistry | inputTypeOCILayout

text \<open>
  The collaborators of \<^verbatim>\<open>runVerify\<close> whose code is outside the two source files, each as
  the function of its arguments that the call returns:
  \<^item> \<open>LevelSkip\<close>: the library constant \<^verbatim>\<open>trustpolicy.LevelSkip\<close>;
  \<^item> \<open>NewFromConfig\<close>: \<^verbatim>\<open>verifier.NewFromConfig()\<close>, a verifier or an error;
  \<^item> \<open>ParseFlagMap\<close>: \<^verbatim>\<open>cmd.ParseFlagMap\<close> of \<^verbatim>\<open>internal/cmd\<close>, which takes the pairs
    given with a repeatable flag and the name of the flag, and returns the map of the
    pairs or a parse error; which pairs it rejects is left to the world;
  \<^item> \<open>getRepository\<close>: a repository handle or an error;
  \<^item> \<open>resolveReference\<close>: the references with which it invokes the callback it is
    given (one per invocation), and the resolved reference or an error;
  \<^item> \<open>resolveArtifactDigestReference\<close>: the intended reference for a resolved reference
    and a trust policy scope;
  \<^item> \<open>Verify\<close>: \<^verbatim>\<open>notation.Verify\<close>, the outcome list and the error.
  The logging and secure flag options embedded in \<^verbatim>\<open>verifyOpts\<close> only pass through to
  these collaborators and are left out.
\<close>

record ('l, 'v, 'r) world =
  LevelSkip :: "'l option"
  NewFromConfig :: "go_error + 'v"
  ParseFlagMap :: "string list \<Rightarrow> string \<Rightarrow> go_error + (string, string) fmap"
  getRepository :: "inputType \<Rightarrow> string \<Rightarrow> go_error + 'r"
  resolveReference :: "inputType \<Rightarrow> string \<Rightarrow> 'r \<Rightarrow> string list \<times> (go_error + string)"
  resolveArtifactDigestReference :: "string \<Rightarrow> string \<Rightarrow> string"
  Verify :: "'v \<Rightarrow> 'r \<Rightarrow> VerifyOptions \<Rightarrow> 'l VerificationOutcome list \<times> go_error option"

text \<open>
  What a run leaves behind, in order: the calls of the collaborators that reach outside
  the process, and the print statements.
\<close>

datatype event =
    Call_NewFromConfig
  | Call_getRepository inputType string
  | Call_resolveReference inputType string
  | Call_Verify VerifyOptions
  | Out print_call

datatype panic = IndexOutOfRange

text \<open>\<^verbatim>\<open>math.MaxInt64 = 1<<63 - 1\<close>, and \<^verbatim>\<open>const maxSignatureAttempts = math.MaxInt64\<close>.\<close>

definition math_MaxInt64 :: int where
  "math_MaxInt64 = 2 ^ 63 - 1"

definition maxSignatureAttempts :: int where
  "maxSignatureAttempts = math_MaxInt64"

record verifyOpts =
  reference :: string
  pluginConfig :: "string list"
  userMetadata :: "string list"
  ociLayout :: bool
  trustPolicyScope :: string
  inputType :: inputType

text \<open>
  Modelled from the spec: the names of the flag declarations \<^verbatim>\<open>cmd.PflagPluginConfig\<close>
  and \<^verbatim>\<open>cmd.PflagUserMetadata\<close> of \<^verbatim>\<open>internal/cmd\<close>, which are not among the source
  files. The spec lists the flag \<^verbatim>\<open>--plugin-config\<close> and the user-metadata flags.
\<close>

definition PflagPluginConfig_Name :: string where
  "PflagPluginConfig_Name = ''plugin-config''"

text \<open>
  Modelled from the spec: the name of \<^verbatim>\<open>cmd.PflagUserMetadata\<close>, the user-metadata flag.
\<close>

definition PflagUserMetadata_Name :: string where
  "PflagUserMetadata_Name = ''user-metadata''"

subsection \<open>checkVerificationFailure\<close>

text \<open>
  \<^verbatim>\<open>
  func checkVerificationFailure(outcomes []*notation.VerificationOutcome, printOut string, err error) error {
      if err != nil || len(outcomes) == 0 {
          if err != nil {
              var errorVerificationFailed notation.ErrorVerificationFailed
              if !errors.As(err, &errorVerificationFailed) {
                  return fmt.Errorf("signature verification failed: %w", err)
              }
          }
          return fmt.Errorf("signature verification failed for all the signatures associated with %s", printOut)
      }
      return nil
  }
  \<close>
  The function reads only the length of \<open>outcomes\<close>, so it is polymorphic in the
  element type.
\<close>

definition checkVerificationFailure :: "'o list \<Rightarrow> string \<Rightarrow> go_error option \<Rightarrow> go_error option" where
  "checkVerificationFailure outcomes printOut err =
     (if err \<noteq> None \<or> length outcomes = 0 then
        (case err of
           Some e \<Rightarrow>
             if \<not> errors_As_ErrorVerificationFailed e
             then Some (fmt_Errorf_w ''signature verification failed: '' e)
             else Some (fmt_Errorf_s
                    ''signature verification failed for all the signatures associated with '' printOut)
         | None \<Rightarrow>
             Some (fmt_Errorf_s
                    ''signature verification failed for all the signatures associated with '' printOut))
      else None)"

subsection \<open>reportVerificationSuccess and printMetadataIfPresent\<close>

text \<open>
  \<^verbatim>\<open>
  metadata, _ := outcome.UserMetadata()
  if len(metadata) > 0 {
      fmt.Println("\nThe artifact was signed with the following user metadata.")
      ioutil.PrintMetadataMap(os.Stdout, metadata)
  }
  \<close>
\<close>

definition printMetadataIfPresent :: "'l VerificationOutcome \<Rightarrow> print_call list" where
  "printMetadataIfPresent outcome =
     (let metadata = fst (UserMetadata_returns outcome) in
      if len_map metadata > 0 then
        [Println Stdout [newline # ''The artifact was signed with the following user metadata.''],
         PrintMetadataMap Stdout metadata]
      else [])"

text \<open>
  The loop over \<^verbatim>\<open>outcome.VerificationResults\<close>: one warning on standard error for each
  result whose \<^verbatim>\<open>Error\<close> is not nil.
\<close>

definition failedResultWarning :: "ValidationResult \<Rightarrow> go_error \<Rightarrow> print_call" where
  "failedResultWarning result e =
     Fprintf Stderr (''Warning: %v was set to %q and failed with error: %v'' @ [newline])
       [ArgString (Type result), ArgString (Action result), ArgError e]"

fun warnFailedResults :: "ValidationResult list \<Rightarrow> print_call list" where
  "warnFailedResults [] = []"
| "warnFailedResults (result # rest) =
     (case Error result of
        Some e \<Rightarrow> [failedResultWarning result e]
      | None \<Rightarrow> [])
     @ warnFailedResults rest"

text \<open>
  \<^verbatim>\<open>outcome := outcomes[0]\<close> panics on an empty slice: that is the result \<open>Inl\<close>. Otherwise
  the result is what the function prints.
\<close>

definition reportVerificationSuccess ::
  "('l, 'v, 'r) world \<Rightarrow> 'l VerificationOutcome list \<Rightarrow> string \<Rightarrow> panic + print_call list" where
  "reportVerificationSuccess w outcomes printout =
     (case outcomes of
        [] \<Rightarrow> Inl IndexOutOfRange
      | outcome # _ \<Rightarrow>
          Inr (warnFailedResults (VerificationResults outcome) @
               (if reflect_DeepEqual (VerificationLevel outcome) (LevelSkip w) then
                  [Println Stdout
                     [''Trust policy is configured to skip signature verification for'', printout]]
                else
                  Println Stdout [''Successfully verified signature for'', printout]
                    # printMetadataIfPresent outcome)))"

subsection \<open>runVerify\<close>

text \<open>
  The callback \<^verbatim>\<open>runVerify\<close> hands to \<^verbatim>\<open>resolveReference\<close>: the warning about a
  reference given by tag.
\<close>

definition tagWarning :: "string \<Rightarrow> event" where
  "tagWarning ref =
     Out (Fprintf Stderr
       (''Warning: Always verify the artifact using digest(@sha256:...) rather than a tag(:%s) because resolved digest may not point to the same signed artifact, as tags are mutable.''
          @ [newline])
       [ArgString ref])"

text \<open>
  \<^verbatim>\<open>runVerify\<close>, statement by statement. The result is the trace of the run and how it
  ends: a panic, or the returned error (\<open>None\<close> for nil). Each early \<^verbatim>\<open>return err\<close> of
  the source is a branch.
\<close>

definition runVerify ::
  "('l, 'v, 'r) world \<Rightarrow> verifyOpts \<Rightarrow> event list \<times> (panic + go_error option)" where
  "runVerify w opts =
     (let t0 = [Call_NewFromConfig] in
      case NewFromConfig w of
        Inl err \<Rightarrow> (t0, Inr (Some err))
      | Inr verifier \<Rightarrow>
     (case ParseFlagMap w (pluginConfig opts) PflagPluginConfig_Name of
        Inl err \<Rightarrow> (t0, Inr (Some err))
      | Inr configs \<Rightarrow>
     (case ParseFlagMap w (userMetadata opts) PflagUserMetadata_Name of
        Inl err \<Rightarrow> (t0, Inr (Some err))
      | Inr userMetadata' \<Rightarrow>
     (let reference' = reference opts;
          t1 = t0 @ [Call_getRepository (inputType opts) reference'] in
      case getRepository w (inputType opts) reference' of
        Inl err \<Rightarrow> (t1, Inr (Some err))
      | Inr sigRepo \<Rightarrow>
     (case resolveReference w (inputType opts) reference' sigRepo of
        (tags, resolved) \<Rightarrow>
     (let t2 = t1 @ [Call_resolveReference (inputType opts) reference'] @ map tagWarning tags in
      case resolved of
        Inl err \<Rightarrow> (t2, Inr (Some err))
      | Inr resolvedRef \<Rightarrow>
     (let intendedRef = resolveArtifactDigestReference w resolvedRef (trustPolicyScope opts);
          verifyOpts =
            \<lparr>ArtifactReference = intendedRef,
             PluginConfig = configs,
             MaxSignatureAttempts = maxSignatureAttempts,
             UserMetadata = userMetadata'\<rparr>;
          t3 = t2 @ [Call_Verify verifyOpts] in
      case Verify w verifier sigRepo verifyOpts of
        (outcomes, err) \<Rightarrow>
     (case checkVerificationFailure outcomes resolvedRef err of
        Some err' \<Rightarrow> (t3, Inr (Some err'))
      | None \<Rightarrow>
     (case reportVerificationSuccess w outcomes resolvedRef of
        Inl p \<Rightarrow> (t3, Inl p)
      | Inr printed \<Rightarrow> (t3 @ map Out printed, Inr None))))))))))"

subsection \<open>verifyCommand\<close>

text \<open>The \<^verbatim>\<open>Args\<close> hook: the first positional argument is the reference.\<close>

definition verifyCommand_Args :: "verifyOpts \<Rightarrow> string list \<Rightarrow> go_error + verifyOpts" where
  "verifyCommand_Args opts as =
     (case as of
        [] \<Rightarrow> Inl (ErrorString ''missing reference'')
      | a # _ \<Rightarrow> Inr (opts\<lparr>reference := a\<rparr>))"

text \<open>The \<^verbatim>\<open>PreRunE\<close> hook.\<close>

definition verifyCommand_PreRunE ::
  "(string \<Rightarrow> string) \<Rightarrow> os \<Rightarrow> cmdline \<Rightarrow> verifyOpts \<Rightarrow> verifyOpts \<times> print_call list \<times> go_error option" where
  "verifyCommand_PreRunE fmt_q os cl opts =
     (let opts' = (if ociLayout opts then opts\<lparr>inputType := inputTypeOCILayout\<rparr> else opts)
      in (opts', CheckFlagsAndWarn fmt_q os cl [''oci-layout'', ''scope'']))"

text \<open>
  \<^verbatim>\<open>command.MarkFlagsRequiredTogether("oci-layout", "scope")\<close>: when the command runs, the
  command library collects the flags of the group that were not given; if that is
  neither none of them nor all of them, the command fails, naming the group and the
  missing flags in sorted order.
\<close>

definition validateRequiredFlagGroup :: "cmdline \<Rightarrow> string list \<Rightarrow> go_error option" where
  "validateRequiredFlagGroup cl flagList =
     (let unset = filter (\<lambda>flag. \<not> Changed cl flag) flagList in
      if length unset = length flagList \<or> length unset = 0 then None
      else Some (ErrorString
             (''if any flags in the group ['' @ strings_Join flagList '' ''
                @ ''] are set they must all be set; missing ['' @ strings_Join (sort unset) '' ''
                @ '']'')))"

text \<open>
  Running the command that \<^verbatim>\<open>verifyCommand(nil)\<close> builds on a parsed command line. The
  flag variables are bound to the fields of \<^verbatim>\<open>opts\<close>, so parsing fills them (a flag not
  given leaves its default: \<open>False\<close>, the empty string, no pairs), and \<^verbatim>\<open>inputType\<close>
  starts as the remote registry. The command library then runs, in this order and
  stopping at the first error: \<^verbatim>\<open>Args\<close>, \<^verbatim>\<open>PreRunE\<close>, the check of the flag groups,
  \<^verbatim>\<open>RunE\<close> (which is \<^verbatim>\<open>runVerify\<close>). Hiding the experimental flags changes the help
  text only and is left out.
\<close>

definition verifyCommand ::
  "(string \<Rightarrow> string) \<Rightarrow> os \<Rightarrow> ('l, 'v, 'r) world \<Rightarrow> cmdline
     \<Rightarrow> event list \<times> (panic + go_error option)" where
  "verifyCommand fmt_q os w cl =
     (let opts =
            \<lparr>reference = [],
             pluginConfig = plugin_config_flag cl,
             userMetadata = user_metadata_flag cl,
             ociLayout = (case oci_layout_flag cl of None \<Rightarrow> False | Some b \<Rightarrow> b),
             trustPolicyScope = (case scope_flag cl of None \<Rightarrow> [] | Some s \<Rightarrow> s),
             inputType = inputTypeRegistry\<rparr> in
      case verifyCommand_Args opts (args cl) of
        Inl err \<Rightarrow> ([], Inr (Some err))
      | Inr opts1 \<Rightarrow>
     (case verifyCommand_PreRunE fmt_q os cl opts1 of
        (opts2, printed, Some err) \<Rightarrow> (map Out printed, Inr (Some err))
      | (opts2, printed, None) \<Rightarrow>
     (case validateRequiredFlagGroup cl [''oci-layout'', ''scope''] of
        Some err \<Rightarrow> (map Out printed, Inr (Some err))
      | None \<Rightarrow>
     (case runVerify w opts2 of
        (t, r) \<Rightarrow> (map Out printed @ t, r)))))"

section \<open>Example inputs\<close>

text \<open>
  Concrete outcomes, a concrete world and concrete command lines, on which the
  properties below are evaluated. In \<open>example_world\<close> the reference is a tag that
  resolves to a digest, and the verifier returns one outcome of level strict, with one
  check that passed and one logged check that failed.
\<close>

definition example_outcome :: "string VerificationOutcome" where
  "example_outcome =
     \<lparr>VerificationLevel = Some ''strict'',
      VerificationResults =
        [\<lparr>Type = ''integrity'', Action = ''enforce'', Error = None\<rparr>,
         \<lparr>Type = ''expiry'', Action = ''log'', Error = Some (ErrorString ''signature expired'')\<rparr>],
      UserMetadata_returns = (fmupd ''io.wabbit-networks.buildId'' ''123'' fmempty, None)\<rparr>"

definition skip_outcome :: "string VerificationOutcome" where
  "skip_outcome =
     \<lparr>VerificationLevel = Some ''skip'',
      VerificationResults = [],
      UserMetadata_returns = (fmempty, Some (ErrorString ''unable to find envelope content''))\<rparr>"

text \<open>
  The flag parser of the example world. It splits each pair at its first \<^verbatim>\<open>=\<close> and
  stops with a parse error that names the flag at the first pair that has no \<^verbatim>\<open>=\<close>, an
  empty key or an empty value. It only serves to evaluate the properties below, which
  are stated for every parser.
\<close>

definition example_parse_error :: "string \<Rightarrow> go_error" where
  "example_parse_error flagName =
     ErrorString (''could not parse flag '' @ flagName @ '': key-value pair requires ''
                    @ [dquote] @ ''='' @ [dquote] @ '' as separator'')"

fun example_ParseFlagMap_loop ::
  "(string, string) fmap \<Rightarrow> string list \<Rightarrow> string \<Rightarrow> go_error + (string, string) fmap" where
  "example_ParseFlagMap_loop m [] flagName = Inr m"
| "example_ParseFlagMap_loop m (pair # rest) flagName =
     (let key = takeWhile (\<lambda>c. c \<noteq> CHR ''='') pair;
          val = drop 1 (dropWhile (\<lambda>c. c \<noteq> CHR ''='') pair) in
      if CHR ''='' \<notin> set pair \<or> key = [] \<or> val = [] then Inl (example_parse_error flagName)
      else example_ParseFlagMap_loop (fmupd key val m) rest flagName)"

definition example_ParseFlagMap ::
  "string list \<Rightarrow> string \<Rightarrow> go_error + (string, string) fmap" where
  "example_ParseFlagMap c flagName = example_ParseFlagMap_loop fmempty c flagName"

definition example_world :: "(string, nat, nat) world" where
  "example_world =
     \<lparr>LevelSkip = Some ''skip'',
      NewFromConfig = Inr 1,
      ParseFlagMap = example_ParseFlagMap,
      getRepository = (\<lambda>_ _. Inr 2),
      resolveReference = (\<lambda>_ _ _. ([''v1''], Inr ''localhost:5000/net-monitor@sha256:ab'')),
      resolveArtifactDigestReference = (\<lambda>resolvedRef _. resolvedRef),
      Verify = (\<lambda>_ _ _. ([example_outcome], None))\<rparr>"

definition failing_init_world :: "(string, nat, nat) world" where
  "failing_init_world =
     example_world\<lparr>NewFromConfig := Inl (ErrorString ''trust policy is not present'')\<rparr>"

definition example_opts :: verifyOpts where
  "example_opts =
     \<lparr>reference = ''localhost:5000/net-monitor:v1'',
      pluginConfig = [''key=value''],
      userMetadata = [],
      ociLayout = False,
      trustPolicyScope = [],
      inputType = inputTypeRegistry\<rparr>"

definition malformed_opts :: verifyOpts where
  "malformed_opts = example_opts\<lparr>pluginConfig := [''key=value'', ''novalue'']\<rparr>"

definition example_os :: os where
  "example_os = \<lparr>environ = [''NOTATION_EXPERIMENTAL'' \<mapsto> ''1''], stderr_error = None\<rparr>"

definition scope_only_cmdline :: cmdline where
  "scope_only_cmdline =
     \<lparr>command_path = ''notation verify'',
      args = [''localhost:5000/net-monitor:v1''],
      plugin_config_flag = [],
      user_metadata_flag = [],
      oci_layout_flag = None,
      scope_flag = Some ''local/net-monitor''\<rparr>"

text \<open>The quoting of a text without special characters under the verb \<^verbatim>\<open>%q\<close>.\<close>

definition example_quote :: "string \<Rightarrow> string" where
  "example_quote s = [dquote] @ s @ [dquote]"

section \<open>Auxiliary facts\<close>

lemma fmdom_empty_iff: "(fmdom m = {||}) = (m = fmempty)"
proof
  assume "fmdom m = {||}"
  then have "fmlookup m x = None" for x
    by (simp add: fmdom_notD)
  then show "m = fmempty"
    by (intro fmap_ext) simp
qed simp

lemma len_map_pos_iff: "(len_map m > 0) = (m \<noteq> fmempty)"
  by (simp add: len_map_def zero_less_iff_neq_zero fmdom_empty_iff)

lemma warnFailedResults_on_stderr:
  "filter (\<lambda>p. stream_of p = Stdout) (warnFailedResults results) = []"
  by (induction results) (auto simp: failedResultWarning_def split: option.splits)

lemma warnFailedResults_all_stderr:
  "filter (\<lambda>p. stream_of p = Stderr) (warnFailedResults results) = warnFailedResults results"
  by (induction results) (auto simp: failedResultWarning_def split: option.splits)

lemma warnFailedResults_length:
  "length (warnFailedResults results) = length (filter (\<lambda>r. Error r \<noteq> None) results)"
  by (induction results) (auto split: option.splits)

lemma warnFailedResults_member:
  "result \<in> set results \<Longrightarrow> Error result = Some e \<Longrightarrow>
     failedResultWarning result e \<in> set (warnFailedResults results)"
  by (induction results) (auto split: option.splits)

lemma warnFailedResults_no_Println: "Println s xs \<notin> set (warnFailedResults results)"
  by (induction results) (auto simp: failedResultWarning_def split: option.splits)

lemma warnFailedResults_no_PrintMetadataMap:
  "PrintMetadataMap s m \<notin> set (warnFailedResults results)"
  by (induction results) (auto simp: failedResultWarning_def split: option.splits)

lemma printMetadataIfPresent_on_stdout:
  "filter (\<lambda>p. stream_of p = Stderr) (printMetadataIfPresent outcome) = []"
  by (simp add: printMetadataIfPresent_def Let_def)

lemma checkVerificationFailure_None_iff:
  "(checkVerificationFailure outcomes printOut err = None) = (err = None \<and> outcomes \<noteq> [])"
  by (auto simp: checkVerificationFailure_def split: option.splits)

lemma warnFailedResults_explicit:
  "warnFailedResults results =
     concat (map (\<lambda>r. case Error r of
                          None \<Rightarrow> []
                        | Some e \<Rightarrow>
                            [Fprintf Stderr
                               (''Warning: %v was set to %q and failed with error: %v'' @ [CHR 0x0A])
                               [ArgString (Type r), ArgString (Action r), ArgError e]])
                 results)"
  by (induction results) (auto simp: failedResultWarning_def newline_def split: option.splits)

lemma sint_64_le_MaxInt64: "sint (x :: 64 word) \<le> math_MaxInt64"
proof -
  have "sint x < 2 ^ (LENGTH(64) - 1)"
    by (rule sint_lt)
  then show ?thesis
    by (simp add: math_MaxInt64_def)
qed

lemma validateRequiredFlagGroup_one_missing:
  assumes "(oci_layout_flag cl = None) \<noteq> (scope_flag cl = None)"
  shows "validateRequiredFlagGroup cl [''oci-layout'', ''scope''] =
           Some (ErrorString
             (''if any flags in the group [oci-layout scope] are set they must all be set; missing [''
                @ (if scope_flag cl = None then ''scope'' else ''oci-layout'') @ '']''))"
  using assms by (auto simp: validateRequiredFlagGroup_def Changed_def)

lemma runVerify_success_path:
  assumes "NewFromConfig w = Inr v"
    and "ParseFlagMap w (pluginConfig opts) PflagPluginConfig_Name = Inr configs"
    and "ParseFlagMap w (userMetadata opts) PflagUserMetadata_Name = Inr um"
    and "getRepository w (inputType opts) (reference opts) = Inr repo"
    and "resolveReference w (inputType opts) (reference opts) repo = (tags, Inr resolvedRef)"
    and "Verify w v repo
           \<lparr>ArtifactReference = resolveArtifactDigestReference w resolvedRef (trustPolicyScope opts),
            PluginConfig = configs,
            MaxSignatureAttempts = maxSignatureAttempts,
            UserMetadata = um\<rparr> = (outcome # rest, None)"
  shows "snd (runVerify w opts) = Inr None \<and>
         (\<exists>t printed. fst (runVerify w opts) = t @ map Out printed \<and>
            reportVerificationSuccess w [outcome] resolvedRef = Inr printed)"
  using assms
  by (simp add: runVerify_def Let_def checkVerificationFailure_def reportVerificationSuccess_def)

section \<open>Properties of checkVerificationFailure\<close>

text \<open>
  C1. Whatever error the verifier returned, also none, an empty outcome list is reported
  as a failure: the result of checkVerificationFailure is not nil. With a nil verifier
  error the failure is the generic message naming the reference.
\<close>

theorem checkVerificationFailure_empty_outcomes:
  "outcomes = [] \<Longrightarrow>
     checkVerificationFailure outcomes printOut err \<noteq> None \<and>
     checkVerificationFailure outcomes printOut None =
       Some (ErrorString
         (''signature verification failed for all the signatures associated with '' @ printOut))"
  by (simp add: checkVerificationFailure_def fmt_Errorf_s_def split: option.splits)

theorem checkVerificationFailure_empty_outcomes_witness:
  "([] :: unit list) = [] \<and>
   checkVerificationFailure ([] :: unit list) ''reg/repo@sha256:ab'' None \<noteq> None \<and>
   checkVerificationFailure ([] :: unit list) ''reg/repo@sha256:ab'' None =
     Some (ErrorString
       (''signature verification failed for all the signatures associated with '' @ ''reg/repo@sha256:ab''))"
  using checkVerificationFailure_empty_outcomes [of "[] :: unit list" "''reg/repo@sha256:ab''" None]
  by simp

text \<open>
  C2. For a non-nil error of the verifier and any outcome list: when no error in its
  unwrap chain is a notation.ErrorVerificationFailed, checkVerificationFailure returns
  an error whose text is "signature verification failed: " followed by the text of the
  original error, and which unwraps to the original error; when some error in the chain
  is of that kind, it returns the generic message "signature verification failed for
  all the signatures associated with <reference>", which wraps nothing.
\<close>

theorem checkVerificationFailure_error_kinds:
  "(\<not> errors_As_ErrorVerificationFailed e \<longrightarrow>
      (\<exists>r. checkVerificationFailure outcomes printOut (Some e) = Some r \<and>
           error_message r = ''signature verification failed: '' @ error_message e \<and>
           Unwrap r = Some e)) \<and>
   (errors_As_ErrorVerificationFailed e \<longrightarrow>
      (\<exists>r. checkVerificationFailure outcomes printOut (Some e) = Some r \<and>
           error_message r =
             ''signature verification failed for all the signatures associated with '' @ printOut \<and>
           Unwrap r = None))"
  by (simp add: checkVerificationFailure_def fmt_Errorf_w_def fmt_Errorf_s_def)

theorem checkVerificationFailure_error_kinds_witness:
  "\<not> errors_As_ErrorVerificationFailed (ErrorString ''connection refused'') \<and>
   (\<exists>r. checkVerificationFailure [()] ''reg/repo@sha256:ab''
           (Some (ErrorString ''connection refused'')) = Some r \<and>
        error_message r = ''signature verification failed: connection refused'' \<and>
        Unwrap r = Some (ErrorString ''connection refused'')) \<and>
   errors_As_ErrorVerificationFailed
     (WrapError ''verify: no match'' (ErrorVerificationFailed ''no match'')) \<and>
   (\<exists>r. checkVerificationFailure [()] ''reg/repo@sha256:ab''
           (Some (WrapError ''verify: no match'' (ErrorVerificationFailed ''no match''))) = Some r \<and>
        error_message r =
          ''signature verification failed for all the signatures associated with reg/repo@sha256:ab'' \<and>
        Unwrap r = None)"
  using checkVerificationFailure_error_kinds
          [of "ErrorString ''connection refused''" "[()]" "''reg/repo@sha256:ab''"]
        checkVerificationFailure_error_kinds
          [of "WrapError ''verify: no match'' (ErrorVerificationFailed ''no match'')" "[()]"
              "''reg/repo@sha256:ab''"]
  by simp

section \<open>Properties of the success report\<close>

text \<open>
  C3. When the verification level of the first outcome equals the skip level, the
  success report prints on standard output the skip message "Trust policy is configured
  to skip signature verification for <reference>" and nothing else: neither the success
  line, nor the metadata heading, nor the metadata map.
\<close>

theorem reportVerificationSuccess_skip:
  assumes "VerificationLevel outcome = LevelSkip w"
  shows "\<exists>printed.
           reportVerificationSuccess w (outcome # rest) printout = Inr printed \<and>
           filter (\<lambda>p. stream_of p = Stdout) printed =
             [Println Stdout
                [''Trust policy is configured to skip signature verification for'', printout]] \<and>
           Println Stdout [''Successfully verified signature for'', printout] \<notin> set printed \<and>
           Println Stdout [newline # ''The artifact was signed with the following user metadata.'']
             \<notin> set printed \<and>
           (\<forall>metadata. PrintMetadataMap Stdout metadata \<notin> set printed)"
  using assms
  by (simp add: reportVerificationSuccess_def reflect_DeepEqual_def warnFailedResults_on_stderr
        warnFailedResults_no_Println warnFailedResults_no_PrintMetadataMap)

theorem reportVerificationSuccess_skip_witness:
  "VerificationLevel skip_outcome = LevelSkip example_world \<and>
   reportVerificationSuccess example_world [skip_outcome, example_outcome] ''reg/repo@sha256:ab'' =
     Inr [Println Stdout
            [''Trust policy is configured to skip signature verification for'',
             ''reg/repo@sha256:ab'']]"
  using reportVerificationSuccess_skip
          [of skip_outcome example_world "[example_outcome]" "''reg/repo@sha256:ab''"]
  by (simp add: skip_outcome_def example_world_def reportVerificationSuccess_def
        reflect_DeepEqual_def)

text \<open>
  C7. For a first outcome whose level is not the skip level, standard output carries
  the success line first; when the user metadata is not empty, the metadata heading and
  the metadata map follow it, in this order; when the metadata map is empty, nothing
  follows the success line.
\<close>

theorem reportVerificationSuccess_metadata:
  assumes "VerificationLevel outcome \<noteq> LevelSkip w"
  shows "\<exists>printed.
           reportVerificationSuccess w (outcome # rest) printout = Inr printed \<and>
           filter (\<lambda>p. stream_of p = Stdout) printed =
             Println Stdout [''Successfully verified signature for'', printout] #
             (if fst (UserMetadata_returns outcome) \<noteq> fmempty then
                [Println Stdout
                   [newline # ''The artifact was signed with the following user metadata.''],
                 PrintMetadataMap Stdout (fst (UserMetadata_returns outcome))]
              else [])"
  using assms
  by (simp add: reportVerificationSuccess_def reflect_DeepEqual_def warnFailedResults_on_stderr
        printMetadataIfPresent_def len_map_pos_iff)

theorem reportVerificationSuccess_metadata_witness:
  "VerificationLevel example_outcome \<noteq> LevelSkip example_world \<and>
   reportVerificationSuccess example_world [example_outcome] ''reg/repo@sha256:ab'' =
     Inr [failedResultWarning
            \<lparr>Type = ''expiry'', Action = ''log'', Error = Some (ErrorString ''signature expired'')\<rparr>
            (ErrorString ''signature expired''),
          Println Stdout [''Successfully verified signature for'', ''reg/repo@sha256:ab''],
          Println Stdout
            [newline # ''The artifact was signed with the following user metadata.''],
          PrintMetadataMap Stdout (fmupd ''io.wabbit-networks.buildId'' ''123'' fmempty)] \<and>
   reportVerificationSuccess example_world
       [example_outcome\<lparr>UserMetadata_returns := (fmempty, None)\<rparr>] ''reg/repo@sha256:ab'' =
     Inr [failedResultWarning
            \<lparr>Type = ''expiry'', Action = ''log'', Error = Some (ErrorString ''signature expired'')\<rparr>
            (ErrorString ''signature expired''),
          Println Stdout [''Successfully verified signature for'', ''reg/repo@sha256:ab'']]"
  using reportVerificationSuccess_metadata
          [of example_outcome example_world "[]" "''reg/repo@sha256:ab''"]
  by (simp add: example_outcome_def example_world_def reportVerificationSuccess_def
        reflect_DeepEqual_def printMetadataIfPresent_def len_map_pos_iff)

text \<open>
  C4. The success report reads the first outcome only: the rest of the list does not
  change what is printed. Standard error carries, in the order of the per-check results
  of that outcome, exactly one warning for each result whose error is not nil: the call
  Fprintf(os.Stderr, "Warning: %v was set to %q and failed with error: %v\n", Type,
  Action, Error) with the type, the action and the error of that result; results
  without an error print nothing. These errors do not make a failure: with a nil
  verifier error and a non-empty outcome list checkVerificationFailure returns nil, and
  a run of runVerify that gets such a list from the verifier returns nil after printing
  the report of the first outcome.
\<close>

theorem reportVerificationSuccess_first_outcome_warnings:
  "reportVerificationSuccess w (outcome # rest) printout =
     reportVerificationSuccess w [outcome] printout \<and>
   (\<exists>printed.
      reportVerificationSuccess w (outcome # rest) printout = Inr printed \<and>
      filter (\<lambda>p. stream_of p = Stderr) printed =
        concat (map (\<lambda>r. case Error r of
                             None \<Rightarrow> []
                           | Some e \<Rightarrow>
                               [Fprintf Stderr
                                  (''Warning: %v was set to %q and failed with error: %v''
                                     @ [CHR 0x0A])
                                  [ArgString (Type r), ArgString (Action r), ArgError e]])
                    (VerificationResults outcome)) \<and>
      length (filter (\<lambda>p. stream_of p = Stderr) printed) =
        length (filter (\<lambda>r. Error r \<noteq> None) (VerificationResults outcome)) \<and>
      (\<forall>r \<in> set (VerificationResults outcome). \<forall>e. Error r = Some e \<longrightarrow>
         Fprintf Stderr
           (''Warning: %v was set to %q and failed with error: %v'' @ [CHR 0x0A])
           [ArgString (Type r), ArgString (Action r), ArgError e] \<in> set printed)) \<and>
   checkVerificationFailure (outcome # rest) printout None = None \<and>
   (NewFromConfig w = Inr v \<and>
    ParseFlagMap w (pluginConfig opts) PflagPluginConfig_Name = Inr configs \<and>
    ParseFlagMap w (userMetadata opts) PflagUserMetadata_Name = Inr um \<and>
    getRepository w (inputType opts) (reference opts) = Inr repo \<and>
    resolveReference w (inputType opts) (reference opts) repo = (tags, Inr resolvedRef) \<and>
    Verify w v repo
      \<lparr>ArtifactReference = resolveArtifactDigestReference w resolvedRef (trustPolicyScope opts),
       PluginConfig = configs,
       MaxSignatureAttempts = maxSignatureAttempts,
       UserMetadata = um\<rparr> = (outcome # rest, None)
    \<longrightarrow> snd (runVerify w opts) = Inr None \<and>
        (\<exists>t printed. fst (runVerify w opts) = t @ map Out printed \<and>
           reportVerificationSuccess w [outcome] resolvedRef = Inr printed))"
proof (intro conjI impI)
  show "reportVerificationSuccess w (outcome # rest) printout =
          reportVerificationSuccess w [outcome] printout"
    by (simp add: reportVerificationSuccess_def)
next
  let ?line = "\<lambda>r e. Fprintf Stderr
                 (''Warning: %v was set to %q and failed with error: %v'' @ [CHR 0x0A])
                 [ArgString (Type r), ArgString (Action r), ArgError e]"
  let ?tail =
    "if reflect_DeepEqual (VerificationLevel outcome) (LevelSkip w) then
       [Println Stdout
          [''Trust policy is configured to skip signature verification for'', printout]]
     else Println Stdout [''Successfully verified signature for'', printout]
            # printMetadataIfPresent outcome"
  let ?printed = "warnFailedResults (VerificationResults outcome) @ ?tail"
  have tail: "filter (\<lambda>p. stream_of p = Stderr) ?tail = []"
    by (simp add: printMetadataIfPresent_on_stdout)
  have line: "failedResultWarning r e = ?line r e" for r e
    by (simp add: failedResultWarning_def newline_def)
  have stderr: "filter (\<lambda>p. stream_of p = Stderr) ?printed =
                  warnFailedResults (VerificationResults outcome)"
    using tail by (simp add: warnFailedResults_all_stderr)
  have "reportVerificationSuccess w (outcome # rest) printout = Inr ?printed"
    by (simp add: reportVerificationSuccess_def)
  moreover have "filter (\<lambda>p. stream_of p = Stderr) ?printed =
                   concat (map (\<lambda>r. case Error r of None \<Rightarrow> [] | Some e \<Rightarrow> [?line r e])
                             (VerificationResults outcome))"
    using stderr warnFailedResults_explicit [of "VerificationResults outcome"] by simp
  moreover have "length (filter (\<lambda>p. stream_of p = Stderr) ?printed) =
                   length (filter (\<lambda>r. Error r \<noteq> None) (VerificationResults outcome))"
    using stderr by (simp add: warnFailedResults_length)
  moreover have "\<forall>r \<in> set (VerificationResults outcome). \<forall>e. Error r = Some e \<longrightarrow>
                   ?line r e \<in> set ?printed"
    using warnFailedResults_member [of _ "VerificationResults outcome"]
    by (auto simp: line)
  ultimately show "\<exists>printed.
      reportVerificationSuccess w (outcome # rest) printout = Inr printed \<and>
      filter (\<lambda>p. stream_of p = Stderr) printed =
        concat (map (\<lambda>r. case Error r of None \<Rightarrow> [] | Some e \<Rightarrow> [?line r e])
                  (VerificationResults outcome)) \<and>
      length (filter (\<lambda>p. stream_of p = Stderr) printed) =
        length (filter (\<lambda>r. Error r \<noteq> None) (VerificationResults outcome)) \<and>
      (\<forall>r \<in> set (VerificationResults outcome). \<forall>e. Error r = Some e \<longrightarrow>
         ?line r e \<in> set printed)"
    by blast
next
  show "checkVerificationFailure (outcome # rest) printout None = None"
    by (simp add: checkVerificationFailure_def)
next
  assume path: "NewFromConfig w = Inr v \<and>
    ParseFlagMap w (pluginConfig opts) PflagPluginConfig_Name = Inr configs \<and>
    ParseFlagMap w (userMetadata opts) PflagUserMetadata_Name = Inr um \<and>
    getRepository w (inputType opts) (reference opts) = Inr repo \<and>
    resolveReference w (inputType opts) (reference opts) repo = (tags, Inr resolvedRef) \<and>
    Verify w v repo
      \<lparr>ArtifactReference = resolveArtifactDigestReference w resolvedRef (trustPolicyScope opts),
       PluginConfig = configs,
       MaxSignatureAttempts = maxSignatureAttempts,
       UserMetadata = um\<rparr> = (outcome # rest, None)"
  then have both: "snd (runVerify w opts) = Inr None \<and>
        (\<exists>t printed. fst (runVerify w opts) = t @ map Out printed \<and>
           reportVerificationSuccess w [outcome] resolvedRef = Inr printed)"
    using runVerify_success_path [where v = v and configs = configs and um = um and repo = repo
        and tags = tags and resolvedRef = resolvedRef and outcome = outcome and rest = rest]
    by simp
  from both show "snd (runVerify w opts) = Inr None"
    by simp
  from both show "\<exists>t printed. fst (runVerify w opts) = t @ map Out printed \<and>
           reportVerificationSuccess w [outcome] resolvedRef = Inr printed"
    by simp
qed

theorem reportVerificationSuccess_first_outcome_warnings_witness:
  "(NewFromConfig example_world = Inr 1 \<and>
    ParseFlagMap example_world (pluginConfig example_opts) PflagPluginConfig_Name =
      Inr (fmupd ''key'' ''value'' fmempty) \<and>
    ParseFlagMap example_world (userMetadata example_opts) PflagUserMetadata_Name =
      Inr fmempty \<and>
    getRepository example_world (inputType example_opts) (reference example_opts) = Inr 2 \<and>
    resolveReference example_world (inputType example_opts) (reference example_opts) 2 =
      ([''v1''], Inr ''localhost:5000/net-monitor@sha256:ab'') \<and>
    Verify example_world 1 2
      \<lparr>ArtifactReference =
         resolveArtifactDigestReference example_world ''localhost:5000/net-monitor@sha256:ab''
           (trustPolicyScope example_opts),
       PluginConfig = fmupd ''key'' ''value'' fmempty,
       MaxSignatureAttempts = maxSignatureAttempts,
       UserMetadata = fmempty\<rparr> = ([example_outcome], None)) \<and>
   \<lparr>Type = ''expiry'', Action = ''log'', Error = Some (ErrorString ''signature expired'')\<rparr>
     \<in> set (VerificationResults example_outcome) \<and>
   length (filter (\<lambda>r. Error r \<noteq> None) (VerificationResults example_outcome)) = 1 \<and>
   snd (runVerify example_world example_opts) = Inr None \<and>
   (\<exists>printed.
      reportVerificationSuccess example_world [example_outcome]
        ''localhost:5000/net-monitor@sha256:ab'' = Inr printed \<and>
      filter (\<lambda>p. stream_of p = Stderr) printed =
        [Fprintf Stderr
           (''Warning: %v was set to %q and failed with error: %v'' @ [CHR 0x0A])
           [ArgString ''expiry'', ArgString ''log'', ArgError (ErrorString ''signature expired'')]])"
proof -
  have path:
    "NewFromConfig example_world = Inr 1 \<and>
     ParseFlagMap example_world (pluginConfig example_opts) PflagPluginConfig_Name =
       Inr (fmupd ''key'' ''value'' fmempty) \<and>
     ParseFlagMap example_world (userMetadata example_opts) PflagUserMetadata_Name =
       Inr fmempty \<and>
     getRepository example_world (inputType example_opts) (reference example_opts) = Inr 2 \<and>
     resolveReference example_world (inputType example_opts) (reference example_opts) 2 =
       ([''v1''], Inr ''localhost:5000/net-monitor@sha256:ab'') \<and>
     Verify example_world 1 2
       \<lparr>ArtifactReference =
          resolveArtifactDigestReference example_world ''localhost:5000/net-monitor@sha256:ab''
            (trustPolicyScope example_opts),
        PluginConfig = fmupd ''key'' ''value'' fmempty,
        MaxSignatureAttempts = maxSignatureAttempts,
        UserMetadata = fmempty\<rparr> = ([example_outcome], None)"
    by (simp add: example_world_def example_opts_def example_ParseFlagMap_def)
  have results:
    "\<lparr>Type = ''expiry'', Action = ''log'', Error = Some (ErrorString ''signature expired'')\<rparr>
       \<in> set (VerificationResults example_outcome) \<and>
     length (filter (\<lambda>r. Error r \<noteq> None) (VerificationResults example_outcome)) = 1"
    by (simp add: example_outcome_def)
  have lines:
    "concat (map (\<lambda>r. case Error r of
                          None \<Rightarrow> []
                        | Some e \<Rightarrow>
                            [Fprintf Stderr
                               (''Warning: %v was set to %q and failed with error: %v''
                                  @ [CHR 0x0A])
                               [ArgString (Type r), ArgString (Action r), ArgError e]])
               (VerificationResults example_outcome)) =
       [Fprintf Stderr
          (''Warning: %v was set to %q and failed with error: %v'' @ [CHR 0x0A])
          [ArgString ''expiry'', ArgString ''log'', ArgError (ErrorString ''signature expired'')]]"
    by (simp add: example_outcome_def)
  show ?thesis
    using path results lines
      reportVerificationSuccess_first_outcome_warnings
        [where w = example_world and outcome = example_outcome and rest = "[]"
           and printout = "''localhost:5000/net-monitor@sha256:ab''"
           and v = 1 and opts = example_opts and configs = "fmupd ''key'' ''value'' fmempty"
           and um = fmempty and repo = 2 and tags = "[''v1'']"
           and resolvedRef = "''localhost:5000/net-monitor@sha256:ab''"]
    by force
qed

section \<open>Properties of runVerify\<close>

text \<open>
  C5, as the code has it. When the flag parser rejects the plugin-config list, that is,
  the list holds a malformed key=value pair, runVerify fails after the construction of
  the verifier and before anything else: the trace of the run is the call of
  verifier.NewFromConfig alone, so no repository handle is obtained, no reference is
  resolved and the verifier is not run. The error returned is the parse error when the
  verifier was constructed, and the error of the construction otherwise.
\<close>

theorem runVerify_malformed_plugin_config:
  assumes "ParseFlagMap w (pluginConfig opts) PflagPluginConfig_Name = Inl parseErr"
  shows "fst (runVerify w opts) = [Call_NewFromConfig] \<and>
         snd (runVerify w opts) =
           Inr (Some (case NewFromConfig w of
                        Inl err \<Rightarrow> err
                      | Inr _ \<Rightarrow> parseErr))"
  using assms
  by (simp add: runVerify_def split: sum.splits)

theorem runVerify_malformed_plugin_config_witness:
  "ParseFlagMap example_world (pluginConfig malformed_opts) PflagPluginConfig_Name =
     Inl (example_parse_error ''plugin-config'') \<and>
   fst (runVerify example_world malformed_opts) = [Call_NewFromConfig] \<and>
   snd (runVerify example_world malformed_opts) =
     Inr (Some (example_parse_error ''plugin-config''))"
proof -
  have rejected:
    "ParseFlagMap example_world (pluginConfig malformed_opts) PflagPluginConfig_Name =
       Inl (example_parse_error ''plugin-config'')"
    by (simp add: example_world_def malformed_opts_def example_opts_def
          example_ParseFlagMap_def PflagPluginConfig_Name_def)
  show ?thesis
    using rejected runVerify_malformed_plugin_config [OF rejected]
    by (simp add: example_world_def)
qed

text \<open>
  Where the construction of the verifier fails, the error of a run with a malformed
  pair is not a parse error: the plugin-config list holds the pair "novalue", which the
  parser rejects, and runVerify returns the error of verifier.NewFromConfig.
\<close>

theorem runVerify_malformed_plugin_config_counterexample:
  "''novalue'' \<in> set (pluginConfig malformed_opts) \<and>
   CHR ''='' \<notin> set ''novalue'' \<and>
   ParseFlagMap failing_init_world (pluginConfig malformed_opts) PflagPluginConfig_Name =
     Inl (example_parse_error PflagPluginConfig_Name) \<and>
   snd (runVerify failing_init_world malformed_opts) =
     Inr (Some (ErrorString ''trust policy is not present'')) \<and>
   snd (runVerify failing_init_world malformed_opts) \<noteq>
     Inr (Some (example_parse_error PflagPluginConfig_Name))"
  by (simp add: runVerify_def failing_init_world_def example_world_def malformed_opts_def
        example_opts_def example_ParseFlagMap_def example_parse_error_def)

text \<open>
  C8. In every run of runVerify, every call of the verifier gets the options with
  MaxSignatureAttempts = 2^63 - 1 = 9223372036854775807. This constant is the greatest
  signed 64-bit integer: no signed 64-bit value exceeds it, and one equals it.
\<close>

theorem runVerify_MaxSignatureAttempts:
  "(\<forall>ev \<in> set (fst (runVerify w opts)). \<forall>vo. ev = Call_Verify vo \<longrightarrow>
      MaxSignatureAttempts vo = 2 ^ 63 - 1) \<and>
   maxSignatureAttempts = 9223372036854775807 \<and>
   (\<forall>x :: 64 word. sint x \<le> maxSignatureAttempts) \<and>
   sint (0x7FFFFFFFFFFFFFFF :: 64 word) = maxSignatureAttempts"
proof (intro conjI)
  show "\<forall>ev \<in> set (fst (runVerify w opts)). \<forall>vo. ev = Call_Verify vo \<longrightarrow>
          MaxSignatureAttempts vo = 2 ^ 63 - 1"
    by (auto simp: runVerify_def Let_def tagWarning_def maxSignatureAttempts_def
          math_MaxInt64_def split: sum.splits prod.splits option.splits)
  show "maxSignatureAttempts = 9223372036854775807"
    by (simp add: maxSignatureAttempts_def math_MaxInt64_def)
  show "\<forall>x :: 64 word. sint x \<le> maxSignatureAttempts"
    by (simp add: maxSignatureAttempts_def sint_64_le_MaxInt64)
  show "sint (0x7FFFFFFFFFFFFFFF :: 64 word) = maxSignatureAttempts"
    by (simp add: maxSignatureAttempts_def math_MaxInt64_def)
qed

theorem runVerify_MaxSignatureAttempts_witness:
  "Call_Verify
     \<lparr>ArtifactReference = ''localhost:5000/net-monitor@sha256:ab'',
      PluginConfig = fmupd ''key'' ''value'' fmempty,
      MaxSignatureAttempts = 9223372036854775807,
      UserMetadata = fmempty\<rparr>
     \<in> set (fst (runVerify example_world example_opts)) \<and>
   MaxSignatureAttempts
     \<lparr>ArtifactReference = ''localhost:5000/net-monitor@sha256:ab'',
      PluginConfig = fmupd ''key'' ''value'' fmempty,
      MaxSignatureAttempts = 9223372036854775807,
      UserMetadata = fmempty\<rparr> = 2 ^ 63 - 1"
proof -
  have called:
    "Call_Verify
       \<lparr>ArtifactReference = ''localhost:5000/net-monitor@sha256:ab'',
        PluginConfig = fmupd ''key'' ''value'' fmempty,
        MaxSignatureAttempts = 9223372036854775807,
        UserMetadata = fmempty\<rparr>
       \<in> set (fst (runVerify example_world example_opts))"
    by (simp add: runVerify_def Let_def example_world_def example_opts_def
          example_ParseFlagMap_def
          checkVerificationFailure_def reportVerificationSuccess_def maxSignatureAttempts_def
          math_MaxInt64_def)
  show ?thesis
    using called runVerify_MaxSignatureAttempts [of example_world example_opts]
    by blast
qed

text \<open>
  C9. No run of runVerify panics: the index expression outcomes[0] of the success report
  is never evaluated on an empty list. For an empty outcome list checkVerificationFailure
  returns a non-nil error, whatever the verifier error; and whenever it returns nil, the
  outcome list is not empty and the success report does not go out of range.
\<close>

theorem runVerify_never_panics:
  "snd (runVerify w opts) \<noteq> Inl p \<and>
   checkVerificationFailure ([] :: 'l VerificationOutcome list) printOut err \<noteq> None \<and>
   (checkVerificationFailure outcomes printOut err = None \<longrightarrow>
      outcomes \<noteq> [] \<and> reportVerificationSuccess w outcomes printOut \<noteq> Inl IndexOutOfRange)"
  by (auto simp: runVerify_def Let_def checkVerificationFailure_None_iff
        reportVerificationSuccess_def
        split: sum.splits prod.splits option.splits list.splits)

theorem runVerify_never_panics_witness:
  "checkVerificationFailure [example_outcome] ''reg/repo@sha256:ab'' None = None \<and>
   [example_outcome] \<noteq> [] \<and>
   reportVerificationSuccess example_world [example_outcome] ''reg/repo@sha256:ab''
     \<noteq> Inl IndexOutOfRange \<and>
   snd (runVerify (example_world\<lparr>Verify := (\<lambda>_ _ _. ([], None))\<rparr>) example_opts) =
     Inr (Some (ErrorString
       ''signature verification failed for all the signatures associated with localhost:5000/net-monitor@sha256:ab''))"
proof -
  have ok: "checkVerificationFailure [example_outcome] ''reg/repo@sha256:ab'' None = None"
    by (simp add: checkVerificationFailure_def)
  have empty:
    "snd (runVerify (example_world\<lparr>Verify := (\<lambda>_ _ _. ([], None))\<rparr>) example_opts) =
       Inr (Some (ErrorString
         ''signature verification failed for all the signatures associated with localhost:5000/net-monitor@sha256:ab''))"
    by (simp add: runVerify_def Let_def example_world_def example_opts_def
          example_ParseFlagMap_def
          checkVerificationFailure_def fmt_Errorf_s_def)
  show ?thesis
    using ok empty
      runVerify_never_panics
        [where outcomes = "[example_outcome]" and printOut = "''reg/repo@sha256:ab''"
           and err = None and w = example_world and opts = example_opts
           and p = IndexOutOfRange]
    by blast
qed

section \<open>Properties of the command\<close>

text \<open>
  C6. When exactly one of the flags --oci-layout and --scope is given, the command is
  rejected: it returns an error, and its trace holds print statements only, so neither
  the construction of the verifier nor the verifier itself is reached. When a reference
  is given, the experimental features are enabled and the experimental warning could be
  written, the error is that of the flag group, naming the missing flag.
\<close>

theorem verifyCommand_flags_required_together:
  assumes "(oci_layout_flag cl = None) \<noteq> (scope_flag cl = None)"
  shows "(\<exists>err. snd (verifyCommand fmt_q os w cl) = Inr (Some err)) \<and>
         (\<forall>ev \<in> set (fst (verifyCommand fmt_q os w cl)). \<exists>p. ev = Out p) \<and>
         (args cl \<noteq> [] \<and> \<not> IsDisabled os \<and> stderr_error os = None \<longrightarrow>
            snd (verifyCommand fmt_q os w cl) =
              Inr (Some (ErrorString
                (''if any flags in the group [oci-layout scope] are set they must all be set; missing [''
                   @ (if scope_flag cl = None then ''scope'' else ''oci-layout'') @ '']''))))"
  using validateRequiredFlagGroup_one_missing [OF assms] assms
  by (auto simp: verifyCommand_def verifyCommand_Args_def verifyCommand_PreRunE_def Let_def
        CheckFlagsAndWarn_def CheckAndWarn_def warn_def Changed_def
        split: list.splits prod.splits option.splits sum.splits if_splits)

theorem verifyCommand_flags_required_together_witness:
  "(oci_layout_flag scope_only_cmdline = None) \<noteq> (scope_flag scope_only_cmdline = None) \<and>
   args scope_only_cmdline \<noteq> [] \<and> \<not> IsDisabled example_os \<and> stderr_error example_os = None \<and>
   fst (verifyCommand example_quote example_os example_world scope_only_cmdline) =
     map Out (fst (warn example_os)) \<and>
   snd (verifyCommand example_quote example_os example_world scope_only_cmdline) =
     Inr (Some (ErrorString
       ''if any flags in the group [oci-layout scope] are set they must all be set; missing [oci-layout]''))"
proof -
  have given:
    "(oci_layout_flag scope_only_cmdline = None) \<noteq> (scope_flag scope_only_cmdline = None)"
    by (simp add: scope_only_cmdline_def)
  have enabled:
    "args scope_only_cmdline \<noteq> [] \<and> \<not> IsDisabled example_os \<and> stderr_error example_os = None"
    by (simp add: scope_only_cmdline_def example_os_def IsDisabled_def os_Getenv_def
          envName_def enabled_def)
  have trace:
    "fst (verifyCommand example_quote example_os example_world scope_only_cmdline) =
       map Out (fst (warn example_os))"
    by (simp add: verifyCommand_def verifyCommand_Args_def verifyCommand_PreRunE_def Let_def
          CheckFlagsAndWarn_def CheckAndWarn_def warn_def Changed_def scope_only_cmdline_def
          example_os_def IsDisabled_def os_Getenv_def envName_def enabled_def
          validateRequiredFlagGroup_def)
  have "scope_flag scope_only_cmdline \<noteq> None"
    by (simp add: scope_only_cmdline_def)
  then show ?thesis
    using given enabled trace
      verifyCommand_flags_required_together
        [OF given, of example_quote example_os example_world]
    by simp
qed

section \<open>Properties of the experimental gate\<close>

text \<open>
  C10. IsDisabled is true exactly when the value of NOTATION_EXPERIMENTAL, read as the
  empty text when the variable is not set, differs from "1". For every environment
  where the variable is not set to exactly "1", CheckAndWarn on an experimental feature
  returns the error that the feature is not enabled and prints no warning; where it is
  set to "1", CheckAndWarn prints the warning instead.
\<close>

theorem IsDisabled_unless_exactly_1:
  "IsDisabled os = (os_Getenv os ''NOTATION_EXPERIMENTAL'' \<noteq> ''1'') \<and>
   (environ os ''NOTATION_EXPERIMENTAL'' \<noteq> Some ''1'' \<longrightarrow>
      IsDisabled os \<and>
      CheckAndWarn os (\<lambda>_. (feature, True)) =
        ([], Some (ErrorString (feature @
           '' is experimental and not enabled by default. To use, please set NOTATION_EXPERIMENTAL=1 environment variable'')))) \<and>
   (environ os ''NOTATION_EXPERIMENTAL'' = Some ''1'' \<longrightarrow>
      \<not> IsDisabled os \<and> CheckAndWarn os (\<lambda>_. (feature, True)) = warn os)"
  by (auto simp add: IsDisabled_def CheckAndWarn_def os_Getenv_def envName_def enabled_def
        split: option.splits)

theorem IsDisabled_unless_exactly_1_witness:
  "environ (example_os\<lparr>environ := [''NOTATION_EXPERIMENTAL'' \<mapsto> ''true'']\<rparr>)
      ''NOTATION_EXPERIMENTAL'' \<noteq> Some ''1'' \<and>
   IsDisabled (example_os\<lparr>environ := [''NOTATION_EXPERIMENTAL'' \<mapsto> ''true'']\<rparr>) \<and>
   CheckAndWarn (example_os\<lparr>environ := [''NOTATION_EXPERIMENTAL'' \<mapsto> ''true'']\<rparr>)
       (\<lambda>_. (''flag(s) --scope'', True)) =
     ([], Some (ErrorString
        ''flag(s) --scope is experimental and not enabled by default. To use, please set NOTATION_EXPERIMENTAL=1 environment variable'')) \<and>
   environ (example_os\<lparr>environ := Map.empty\<rparr>) ''NOTATION_EXPERIMENTAL'' \<noteq> Some ''1'' \<and>
   IsDisabled (example_os\<lparr>environ := Map.empty\<rparr>) \<and>
   environ example_os ''NOTATION_EXPERIMENTAL'' = Some ''1'' \<and>
   \<not> IsDisabled example_os \<and>
   CheckAndWarn example_os (\<lambda>_. (''flag(s) --scope'', True)) = warn example_os"
  using IsDisabled_unless_exactly_1
          [of "example_os\<lparr>environ := [''NOTATION_EXPERIMENTAL'' \<mapsto> ''true'']\<rparr>"
              "''flag(s) --scope''"]
        IsDisabled_unless_exactly_1 [of "example_os\<lparr>environ := Map.empty\<rparr>" "''flag(s) --scope''"]
        IsDisabled_unless_exactly_1 [of example_os "''flag(s) --scope''"]
  by (simp add: example_os_def os_Getenv_def)

end
